theory Spec2Isabelle
  imports Main
begin

section \<open>The WAF handle manager of internal/appsec/waf.go\<close>

text \<open>
  A shallow embedding of \<^verbatim>\<open>src/internal/appsec/waf.go\<close>: the functions
  \<^verbatim>\<open>actionFromEntry\<close>, \<^verbatim>\<open>newWAFHandle\<close>, \<^verbatim>\<open>newWAFEventListeners\<close> and
  \<^verbatim>\<open>swapWAF\<close>. Packages the file imports and whose code is not part of the sources
  (go-libddwaf, dyngo, sharedsec, the three protocol listener packages, log) appear as
  data recording the call that was made, or as parameters collected in the record
  \<open>deps\<close>.
\<close>

subsection \<open>Data\<close>

text \<open>
  \<^verbatim>\<open>config.ActionEntry\<close> with its \<^verbatim>\<open>Parameters\<close> struct, as far as waf.go reads
  them. \<^verbatim>\<open>GRPCStatusCode\<close> is a \<^verbatim>\<open>*int\<close>: \<open>None\<close> is the nil pointer. The
  parameter struct's \<^verbatim>\<open>Type\<close> field is written \<open>Type'\<close> since the entry has a
  \<^verbatim>\<open>Type\<close> field of its own. The integers are only passed on, never computed with.
\<close>

record action_parameters =
  StatusCode :: int
  GRPCStatusCode :: "int option"
  Type' :: string
  Location :: string

record action_entry =
  ID :: string
  Type :: string
  Parameters :: action_parameters

text \<open>
  \<^verbatim>\<open>config.RulesFragment\<close>: the ordered action list, and the rest of the rule
  document, which only the rule engine reads.
\<close>

record rules_fragment =
  Rules :: string
  Actions :: "action_entry list"

text \<open>
  Modelled from the spec: \<^verbatim>\<open>sharedsec.NewBlockRequestAction\<close> and
  \<^verbatim>\<open>sharedsec.NewRedirectRequestAction\<close> are not in the sources. The spec's data model
  gives an action two variants: block, carrying an HTTP status code, a protocol-specific
  abort code and a response-content type; redirect, carrying a status code and a target
  location. Each constructor holds the arguments of the call, in the call's order.
\<close>

datatype action =
  NewBlockRequestAction int int string
  | NewRedirectRequestAction int string

text \<open>\<^verbatim>\<open>sharedsec.Actions\<close>, a Go map from action id to action.\<close>

type_synonym Actions = "string \<rightharpoonup> action"

text \<open>One constructor per \<^verbatim>\<open>log.Debug\<close> call site of waf.go, holding its arguments.\<close>

datatype log_event =
  UnknownActionType string
  | PartiallySupported "string list"
  | CreatingGraphQLListener "string set"
  | CreatingGRPCListener "string set"
  | CreatingHTTPListener "string set"

text \<open>A Go \<^verbatim>\<open>error\<close> value, identified by its message.\<close>

datatype error = Error string

text \<open>
  A \<^verbatim>\<open>*waf.Handle\<close>: a reference to a compiled rule set of the engine, \<open>None\<close>
  the nil pointer.
\<close>

type_synonym handle_ptr = "nat option"

text \<open>\<^verbatim>\<open>wafHandle\<close>: the embedded engine handle and the actions of its rule set.\<close>

record wafHandle =
  Handle :: handle_ptr
  actions :: Actions

text \<open>
  The fields of \<^verbatim>\<open>config.Config\<close> that waf.go reads. \<^verbatim>\<open>WAFTimeout\<close> is a
  \<^verbatim>\<open>time.Duration\<close> (nanoseconds); \<^verbatim>\<open>APISec\<close> is passed on by reference to the
  HTTP listener and is kept as an opaque value.
\<close>

record Config =
  Obfuscator_KeyRegex :: string
  Obfuscator_ValueRegex :: string
  WAFTimeout :: int
  APISec :: nat

text \<open>A \<^verbatim>\<open>limiter.Limiter\<close> interface value, an opaque reference.\<close>

type_synonym Limiter = nat

text \<open>
  The functions waf.go calls in packages outside the sources: the engine's
  \<^verbatim>\<open>waf.NewHandle\<close> (a handle pointer and an error, either of which may be nil) and
  \<^verbatim>\<open>Handle.Addresses\<close>, and \<^verbatim>\<open>SupportsAddress\<close> of the three protocol listener
  packages. Every theorem below holds for all of them.
\<close>

record deps =
  waf_NewHandle :: "rules_fragment \<Rightarrow> string \<Rightarrow> string \<Rightarrow> handle_ptr \<times> error option"
  waf_Addresses :: "handle_ptr \<Rightarrow> string list"
  graphqlsec_SupportsAddress :: "string \<Rightarrow> bool"
  grpcsec_SupportsAddress :: "string \<Rightarrow> bool"
  httpsec_SupportsAddress :: "string \<Rightarrow> bool"

subsection \<open>actionFromEntry and newWAFHandle\<close>

text \<open>
  \<^verbatim>\<open>actionFromEntry\<close>: the switch on \<^verbatim>\<open>e.Type\<close>. The result pairs the returned
  pointer (\<open>None\<close> for nil) with what the call logged.
\<close>

definition actionFromEntry :: "action_entry \<Rightarrow> action option \<times> log_event list" where
  "actionFromEntry e =
     (if Type e = ''block_request'' then
        (let grpcCode = (case GRPCStatusCode (Parameters e) of
                           None \<Rightarrow> 10
                         | Some c \<Rightarrow> c)
         in (Some (NewBlockRequestAction (StatusCode (Parameters e)) grpcCode
                     (Type' (Parameters e))), []))
      else if Type e = ''redirect_request'' then
        (Some (NewRedirectRequestAction (StatusCode (Parameters e))
                 (Location (Parameters e))), [])
      else (None, [UnknownActionType (Type e)]))"

text \<open>
  The loop of \<^verbatim>\<open>newWAFHandle\<close> over \<^verbatim>\<open>rules.Actions\<close>: an entry that yields an
  action is stored under its id, overwriting what the map held there.
\<close>

fun addActions :: "Actions \<Rightarrow> action_entry list \<Rightarrow> Actions \<times> log_event list" where
  "addActions acts [] = (acts, [])"
| "addActions acts (entry # entries) =
     (case actionFromEntry entry of
        (None, lg) \<Rightarrow>
          (case addActions acts entries of (acts', lg') \<Rightarrow> (acts', lg @ lg'))
      | (Some a, lg) \<Rightarrow>
          (case addActions (acts(ID entry \<mapsto> a)) entries of
             (acts', lg') \<Rightarrow> (acts', lg @ lg')))"

text \<open>
  \<^verbatim>\<open>newWAFHandle\<close>: the engine is asked for a handle, the action map starts from the
  built-in block action and is filled from the configuration, and the wafHandle is
  returned together with the engine's error, whatever that error is.
\<close>

definition newWAFHandle ::
  "deps \<Rightarrow> rules_fragment \<Rightarrow> Config \<Rightarrow> (wafHandle \<times> error option) \<times> log_event list" where
  "newWAFHandle d rules cfg =
     (case waf_NewHandle d rules (Obfuscator_KeyRegex cfg) (Obfuscator_ValueRegex cfg) of
        (handle, err) \<Rightarrow>
          (case addActions [''block'' \<mapsto> NewBlockRequestAction 403 10 ''auto'']
                  (Actions rules) of
             (acts, lg) \<Rightarrow> ((\<lparr>Handle = handle, actions = acts\<rparr>, err), lg)))"

subsection \<open>newWAFEventListeners\<close>

text \<open>
  Modelled from the spec: the listener constructors \<^verbatim>\<open>NewWAFEventListener\<close> of
  graphqlsec, grpcsec and httpsec are not in the sources. The spec's listener factory
  binds a protocol's listener to an address subset, the handle, the action registry, an
  evaluation timeout and the shared limiter. Each constructor holds the arguments of the
  call, in the call's order; the HTTP one also receives \<^verbatim>\<open>&cfg.APISec\<close>. The address
  argument is a Go \<^verbatim>\<open>map[string]struct{}\<close>, a set of strings.
\<close>

datatype EventListener =
  graphqlsec_NewWAFEventListener handle_ptr Actions "string set" int Limiter
  | grpcsec_NewWAFEventListener handle_ptr Actions "string set" int Limiter
  | httpsec_NewWAFEventListener handle_ptr Actions "string set" int nat Limiter

text \<open>The four collections the address loop of \<^verbatim>\<open>newWAFEventListeners\<close> fills.\<close>

record address_sets =
  graphQLAddresses :: "string set"
  grpcAddresses :: "string set"
  httpAddresses :: "string set"
  notSupported :: "string list"

text \<open>
  The loop \<^verbatim>\<open>for _, address := range ruleAddresses\<close>: three independent tests, each
  adding the address to its protocol's set, and an append to \<^verbatim>\<open>notSupported\<close> when no
  test succeeded.
\<close>

fun checkAddresses :: "deps \<Rightarrow> string list \<Rightarrow> address_sets \<Rightarrow> address_sets" where
  "checkAddresses d [] s = s"
| "checkAddresses d (address # rest) s =
     (let s1 = (if graphqlsec_SupportsAddress d address
                then s\<lparr>graphQLAddresses := insert address (graphQLAddresses s)\<rparr> else s);
          s2 = (if grpcsec_SupportsAddress d address
                then s1\<lparr>grpcAddresses := insert address (grpcAddresses s1)\<rparr> else s1);
          s3 = (if httpsec_SupportsAddress d address
                then s2\<lparr>httpAddresses := insert address (httpAddresses s2)\<rparr> else s2);
          supported = (graphqlsec_SupportsAddress d address
                       \<or> grpcsec_SupportsAddress d address
                       \<or> httpsec_SupportsAddress d address);
          s4 = (if \<not> supported
                then s3\<lparr>notSupported := notSupported s3 @ [address]\<rparr> else s3)
      in checkAddresses d rest s4)"

text \<open>
  \<^verbatim>\<open>newWAFEventListeners\<close>: \<open>Inl\<close> is the return \<^verbatim>\<open>(nil, err)\<close>, \<open>Inr\<close> the
  return \<^verbatim>\<open>(listeners, nil)\<close>; the second component is what the call logged.
\<close>

definition newWAFEventListeners ::
  "deps \<Rightarrow> wafHandle \<Rightarrow> Config \<Rightarrow> Limiter \<Rightarrow> (error + EventListener list) \<times> log_event list" where
  "newWAFEventListeners d waf cfg l =
     (let ruleAddresses = waf_Addresses d (Handle waf) in
      if length ruleAddresses = 0 then (Inl (Error ''no addresses found in the rule''), [])
      else
        (let s = checkAddresses d ruleAddresses
                   \<lparr>graphQLAddresses = {}, grpcAddresses = {}, httpAddresses = {},
                    notSupported = []\<rparr>;
             lg0 = (if length (notSupported s) > 0
                    then [PartiallySupported (notSupported s)] else []);
             (ls1, lg1) =
               (if graphQLAddresses s \<noteq> {}
                then ([graphqlsec_NewWAFEventListener (Handle waf) (actions waf)
                         (graphQLAddresses s) (WAFTimeout cfg) l],
                      [CreatingGraphQLListener (graphQLAddresses s)])
                else ([], []));
             (ls2, lg2) =
               (if grpcAddresses s \<noteq> {}
                then ([grpcsec_NewWAFEventListener (Handle waf) (actions waf)
                         (grpcAddresses s) (WAFTimeout cfg) l],
                      [CreatingGRPCListener (grpcAddresses s)])
                else ([], []));
             (ls3, lg3) =
               (if httpAddresses s \<noteq> {}
                then ([httpsec_NewWAFEventListener (Handle waf) (actions waf)
                         (httpAddresses s) (WAFTimeout cfg) (APISec cfg) l],
                      [CreatingHTTPListener (httpAddresses s)])
                else ([], []))
         in (Inr (ls1 @ ls2 @ ls3), lg0 @ lg1 @ lg2 @ lg3)))"

subsection \<open>swapWAF\<close>

text \<open>
  Modelled from the spec: package dyngo is not in the sources. A root operation is the
  list of the listeners registered on it, in registration order (the spec's event bus
  runs listeners in registration order); \<^verbatim>\<open>NewRootOperation\<close> has none, \<^verbatim>\<open>On\<close>
  registers one more, and \<^verbatim>\<open>SwapRootOperation\<close> replaces the process-wide root.
\<close>

type_synonym RootOperation = "EventListener list"

definition NewRootOperation :: RootOperation where
  "NewRootOperation = []"

definition On :: "RootOperation \<Rightarrow> EventListener \<Rightarrow> RootOperation" where
  "On root l = root @ [l]"

text \<open>The fields of the \<^verbatim>\<open>appsec\<close> struct that \<^verbatim>\<open>swapWAF\<close> uses.\<close>

record appsec =
  cfg :: Config
  limiter :: Limiter
  wafHandle :: "wafHandle option"

text \<open>
  What \<^verbatim>\<open>swapWAF\<close> reads and writes: the receiver \<^verbatim>\<open>a\<close> (field \<open>app\<close>), dyngo's process-wide root
  operation, the engine handles on which \<^verbatim>\<open>Close\<close> has been called (in call order),
  and the log.
\<close>

record world =
  app :: appsec
  rootOperation :: RootOperation
  closed :: "handle_ptr list"
  logged :: "log_event list"

definition Close :: "wafHandle \<Rightarrow> world \<Rightarrow> world" where
  "Close h w = w\<lparr>closed := closed w @ [Handle h]\<rparr>"

definition SwapRootOperation :: "RootOperation \<Rightarrow> world \<Rightarrow> world" where
  "SwapRootOperation newRoot w = w\<lparr>rootOperation := newRoot\<rparr>"

text \<open>
  \<^verbatim>\<open>swapWAF\<close>: the returned error (\<open>None\<close> for nil) and the world after the call.
  The deferred function is registered after the first error check, so it runs on the
  two later returns only, and closes the new handle exactly when the returned error is
  not nil.
\<close>

definition swapWAF :: "deps \<Rightarrow> rules_fragment \<Rightarrow> world \<Rightarrow> error option \<times> world" where
  "swapWAF d rules w =
     (case newWAFHandle d rules (cfg (app w)) of
        ((newHandle, err), lg) \<Rightarrow>
          (let w1 = w\<lparr>logged := logged w @ lg\<rparr> in
           case err of
             Some e \<Rightarrow> (Some e, w1)
           | None \<Rightarrow>
               (case newWAFEventListeners d newHandle (cfg (app w1)) (limiter (app w1)) of
                  (Inl e, lg') \<Rightarrow>
                    (Some e, Close newHandle (w1\<lparr>logged := logged w1 @ lg'\<rparr>))
                | (Inr listeners, lg') \<Rightarrow>
                    (let w2 = w1\<lparr>logged := logged w1 @ lg'\<rparr>;
                         newRoot = foldl On NewRootOperation listeners;
                         w3 = SwapRootOperation newRoot w2;
                         oldHandle = wafHandle (app w3);
                         w4 = w3\<lparr>app := (app w3)\<lparr>wafHandle := Some newHandle\<rparr>\<rparr>
                     in (None, (case oldHandle of
                                  None \<Rightarrow> w4
                                | Some h \<Rightarrow> Close h w4))))))"

subsection \<open>Span tag keys and the rules monitoring tags\<close>

text \<open>The tag keys, the constants declared at the top of waf.go.\<close>

definition eventRulesVersionTag :: string where
  "eventRulesVersionTag = ''_dd.appsec.event_rules.version''"




definition wafDurationTag :: string where
  "wafDurationTag = ''_dd.appsec.waf.duration''"

definition wafDurationExtTag :: string where
  "wafDurationExtTag = ''_dd.appsec.waf.duration_ext''"

definition wafTimeoutTag :: string where
  "wafTimeoutTag = ''_dd.appsec.waf.timeouts''"


text \<open>
  Modelled from the spec: the tags holder (package trace) is not in the sources. The
  spec's data model makes it a mapping from tag key to a value that is a string, an
  integer or a boolean.
\<close>

datatype tag_value = TagString string | TagInt int | TagBool bool
















subsection \<open>Recognised action types and example inputs\<close>

text \<open>The two action types the switch of \<^verbatim>\<open>actionFromEntry\<close> has a case for.\<close>

abbreviation knownType :: "action_entry \<Rightarrow> bool" where
  "knownType e \<equiv> (Type e = ''block_request'' \<or> Type e = ''redirect_request'')"

text \<open>
  Concrete inputs for the closed examples below: an engine that rejects the rule document
  \<open>''invalid''\<close>, compiles \<open>''no-addresses''\<close> to a handle without addresses and
  \<open>''unsupported''\<close> to a handle whose only address no protocol knows, and any other
  document to a handle with three addresses, one of them known to both gRPC and HTTP.
\<close>

definition example_params :: action_parameters where
  "example_params =
     \<lparr>StatusCode = 401, GRPCStatusCode = None, Type' = ''json'', Location = ''/blocked''\<rparr>"

definition example_deps :: deps where
  "example_deps =
     \<lparr>waf_NewHandle = (\<lambda>rules k v.
        if Rules rules = ''invalid'' then (None, Some (Error ''could not instantiate the WAF''))
        else if Rules rules = ''no-addresses'' then (Some 2, None)
        else if Rules rules = ''unsupported'' then (Some 3, None)
        else (Some 1, None)),
      waf_Addresses = (\<lambda>h.
        if h = Some 1 then [''http.client_ip'', ''server.request.method'', ''custom.address'']
        else if h = Some 3 then [''custom.address'']
        else []),
      graphqlsec_SupportsAddress = (\<lambda>x. x = ''graphql.server.all_resolvers''),
      grpcsec_SupportsAddress =
        (\<lambda>x. x = ''grpc.server.request.message'' \<or> x = ''http.client_ip''),
      httpsec_SupportsAddress =
        (\<lambda>x. x = ''server.request.method'' \<or> x = ''http.client_ip'')\<rparr>"

definition example_cfg :: Config where
  "example_cfg = \<lparr>Obfuscator_KeyRegex = ''key'', Obfuscator_ValueRegex = ''value'',
                   WAFTimeout = 4000000, APISec = 0\<rparr>"

definition example_block_entry :: action_entry where
  "example_block_entry =
     \<lparr>ID = ''block-401'', Type = ''block_request'', Parameters = example_params\<rparr>"


definition example_world :: world where
  "example_world =
     \<lparr>app = \<lparr>cfg = example_cfg, limiter = 7,
              wafHandle = Some \<lparr>Handle = Some 0, actions = Map.empty\<rparr>\<rparr>,
      rootOperation = [], closed = [], logged = []\<rparr>"


section \<open>Properties\<close>

subsection \<open>Facts about the action registry\<close>

lemma actionFromEntry_None_iff: "fst (actionFromEntry e) = None \<longleftrightarrow> \<not> knownType e"
  by (simp add: actionFromEntry_def Let_def)

lemma fst_addActions_Cons:
  "fst (addActions acts (e # es)) =
     fst (addActions (case fst (actionFromEntry e) of None \<Rightarrow> acts | Some a \<Rightarrow> acts(ID e \<mapsto> a)) es)"
  by (simp split: prod.splits option.splits)


lemma addActions_lookup:
  "fst (addActions acts es) k =
     (case filter (\<lambda>e. ID e = k \<and> knownType e) es of
        [] \<Rightarrow> acts k
      | e # es' \<Rightarrow> fst (actionFromEntry (last (e # es'))))"
proof (induction es arbitrary: acts)
  case Nil
  show ?case by simp
next
  case (Cons x xs)
  show ?case
  proof (cases "fst (actionFromEntry x)")
    case None
    then have "\<not> knownType x" by (simp add: actionFromEntry_None_iff)
    with None Cons.IH[of acts] show ?thesis
      by (simp only: fst_addActions_Cons) simp
  next
    case (Some v)
    then have k: "knownType x" using actionFromEntry_None_iff[of x] by auto
    have "fst (addActions acts (x # xs)) k = fst (addActions (acts(ID x \<mapsto> v)) xs) k"
      using Some by (simp only: fst_addActions_Cons option.case)
    also have "\<dots> = (case filter (\<lambda>e. ID e = k \<and> knownType e) xs of
        [] \<Rightarrow> (acts(ID x \<mapsto> v)) k
      | e # es' \<Rightarrow> fst (actionFromEntry (last (e # es'))))"
      by (rule Cons.IH)
    also have "\<dots> = (case filter (\<lambda>e. ID e = k \<and> knownType e) (x # xs) of
        [] \<Rightarrow> acts k
      | e # es' \<Rightarrow> fst (actionFromEntry (last (e # es'))))"
      using k Some by (cases "ID x = k") (auto split: list.splits)
    finally show ?thesis .
  qed
qed



lemma newWAFHandle_actions:
  "actions (fst (fst (newWAFHandle d rules conf))) =
     fst (addActions [''block'' \<mapsto> NewBlockRequestAction 403 10 ''auto''] (Actions rules))"
  by (simp add: newWAFHandle_def split: prod.splits)


lemma newWAFHandle_Handle:
  "Handle (fst (fst (newWAFHandle d rules conf))) =
     fst (waf_NewHandle d rules (Obfuscator_KeyRegex conf) (Obfuscator_ValueRegex conf))"
  by (simp add: newWAFHandle_def split: prod.splits)


subsection \<open>Facts about listener construction\<close>

lemma checkAddresses_sets:
  "checkAddresses d xs s =
     \<lparr>graphQLAddresses = graphQLAddresses s \<union> {x \<in> set xs. graphqlsec_SupportsAddress d x},
      grpcAddresses = grpcAddresses s \<union> {x \<in> set xs. grpcsec_SupportsAddress d x},
      httpAddresses = httpAddresses s \<union> {x \<in> set xs. httpsec_SupportsAddress d x},
      notSupported = notSupported s @ filter (\<lambda>x. \<not> graphqlsec_SupportsAddress d x
          \<and> \<not> grpcsec_SupportsAddress d x \<and> \<not> httpsec_SupportsAddress d x) xs\<rparr>"
  apply (induction xs arbitrary: s)
   apply simp
  apply (simp add: Let_def)
  apply auto
  done

lemma checkAddresses_init:
  "graphQLAddresses (checkAddresses d xs
      \<lparr>graphQLAddresses = {}, grpcAddresses = {}, httpAddresses = {}, notSupported = []\<rparr>)
     = {x \<in> set xs. graphqlsec_SupportsAddress d x}"
  "grpcAddresses (checkAddresses d xs
      \<lparr>graphQLAddresses = {}, grpcAddresses = {}, httpAddresses = {}, notSupported = []\<rparr>)
     = {x \<in> set xs. grpcsec_SupportsAddress d x}"
  "httpAddresses (checkAddresses d xs
      \<lparr>graphQLAddresses = {}, grpcAddresses = {}, httpAddresses = {}, notSupported = []\<rparr>)
     = {x \<in> set xs. httpsec_SupportsAddress d x}"
  "notSupported (checkAddresses d xs
      \<lparr>graphQLAddresses = {}, grpcAddresses = {}, httpAddresses = {}, notSupported = []\<rparr>)
     = filter (\<lambda>x. \<not> graphqlsec_SupportsAddress d x \<and> \<not> grpcsec_SupportsAddress d x
                   \<and> \<not> httpsec_SupportsAddress d x) xs"
  by (simp_all add: checkAddresses_sets)

lemma newWAFEventListeners_unfold:
  assumes "waf_Addresses d (Handle waf) \<noteq> []"
  shows "newWAFEventListeners d waf conf lim =
     (let s = checkAddresses d (waf_Addresses d (Handle waf))
                \<lparr>graphQLAddresses = {}, grpcAddresses = {}, httpAddresses = {},
                 notSupported = []\<rparr>
      in (Inr ((if graphQLAddresses s \<noteq> {}
                then [graphqlsec_NewWAFEventListener (Handle waf) (actions waf)
                        (graphQLAddresses s) (WAFTimeout conf) lim] else [])
             @ (if grpcAddresses s \<noteq> {}
                then [grpcsec_NewWAFEventListener (Handle waf) (actions waf)
                        (grpcAddresses s) (WAFTimeout conf) lim] else [])
             @ (if httpAddresses s \<noteq> {}
                then [httpsec_NewWAFEventListener (Handle waf) (actions waf)
                        (httpAddresses s) (WAFTimeout conf) (APISec conf) lim] else [])),
          (if notSupported s \<noteq> [] then [PartiallySupported (notSupported s)] else [])
          @ (if graphQLAddresses s \<noteq> {} then [CreatingGraphQLListener (graphQLAddresses s)]
             else [])
          @ (if grpcAddresses s \<noteq> {} then [CreatingGRPCListener (grpcAddresses s)] else [])
          @ (if httpAddresses s \<noteq> {} then [CreatingHTTPListener (httpAddresses s)]
             else [])))"
  using assms by (simp add: newWAFEventListeners_def Let_def)

lemma newWAFEventListeners_result:
  assumes "waf_Addresses d (Handle waf) \<noteq> []"
  shows "newWAFEventListeners d waf conf lim =
     (let G = {x \<in> set (waf_Addresses d (Handle waf)). graphqlsec_SupportsAddress d x};
          R = {x \<in> set (waf_Addresses d (Handle waf)). grpcsec_SupportsAddress d x};
          H = {x \<in> set (waf_Addresses d (Handle waf)). httpsec_SupportsAddress d x};
          N = filter (\<lambda>x. \<not> graphqlsec_SupportsAddress d x \<and> \<not> grpcsec_SupportsAddress d x
                          \<and> \<not> httpsec_SupportsAddress d x) (waf_Addresses d (Handle waf))
      in (Inr ((if G \<noteq> {}
                then [graphqlsec_NewWAFEventListener (Handle waf) (actions waf) G
                        (WAFTimeout conf) lim] else [])
             @ (if R \<noteq> {}
                then [grpcsec_NewWAFEventListener (Handle waf) (actions waf) R
                        (WAFTimeout conf) lim] else [])
             @ (if H \<noteq> {}
                then [httpsec_NewWAFEventListener (Handle waf) (actions waf) H
                        (WAFTimeout conf) (APISec conf) lim] else [])),
          (if N \<noteq> [] then [PartiallySupported N] else [])
          @ (if G \<noteq> {} then [CreatingGraphQLListener G] else [])
          @ (if R \<noteq> {} then [CreatingGRPCListener R] else [])
          @ (if H \<noteq> {} then [CreatingHTTPListener H] else [])))"
  unfolding newWAFEventListeners_unfold [OF assms] Let_def checkAddresses_init
  by (rule refl)

lemma newWAFEventListeners_error:
  "fst (newWAFEventListeners d waf conf lim) = Inl err \<longleftrightarrow>
     waf_Addresses d (Handle waf) = [] \<and> err = Error ''no addresses found in the rule''"
  by (auto simp: newWAFEventListeners_def Let_def split: prod.splits)

lemma newWAFEventListeners_empty:
  "waf_Addresses d (Handle waf) = [] \<Longrightarrow>
     newWAFEventListeners d waf conf lim = (Inl (Error ''no addresses found in the rule''), [])"
  by (simp add: newWAFEventListeners_def)

lemma newWAFEventListeners_nonempty:
  "waf_Addresses d (Handle waf) \<noteq> [] \<Longrightarrow>
     \<exists>ls. fst (newWAFEventListeners d waf conf lim) = Inr ls"
  by (simp add: newWAFEventListeners_def Let_def split: prod.splits)

subsection \<open>Facts about the swap\<close>

lemma foldl_On: "foldl On root ls = root @ ls"
  by (induction ls arbitrary: root) (simp_all add: On_def)

lemma swapWAF_result:
  "fst (swapWAF d rules w) =
     (case waf_NewHandle d rules (Obfuscator_KeyRegex (cfg (app w)))
             (Obfuscator_ValueRegex (cfg (app w))) of
        (h, Some err) \<Rightarrow> Some err
      | (h, None) \<Rightarrow>
          if waf_Addresses d h = [] then Some (Error ''no addresses found in the rule'')
          else None)"
proof -
  let ?K = "Obfuscator_KeyRegex (cfg (app w))" and ?V = "Obfuscator_ValueRegex (cfg (app w))"
  obtain h err where c: "waf_NewHandle d rules ?K ?V = (h, err)"
    by (metis surj_pair)
  obtain acts lg where ac:
    "addActions [''block'' \<mapsto> NewBlockRequestAction 403 10 ''auto''] (Actions rules) = (acts, lg)"
    by (metis surj_pair)
  have n: "newWAFHandle d rules (cfg (app w)) = ((\<lparr>Handle = h, actions = acts\<rparr>, err), lg)"
    using c ac by (simp add: newWAFHandle_def)
  obtain r lg' where l:
    "newWAFEventListeners d \<lparr>Handle = h, actions = acts\<rparr> (cfg (app w)) (limiter (app w)) = (r, lg')"
    by (metis surj_pair)
  show ?thesis
  proof (cases err)
    case (Some x)
    with n c show ?thesis by (simp add: swapWAF_def)
  next
    case None
    show ?thesis
    proof (cases r)
      case (Inl x)
      with l have "waf_Addresses d h = [] \<and> x = Error ''no addresses found in the rule''"
        using newWAFEventListeners_error
          [of d "\<lparr>Handle = h, actions = acts\<rparr>" "cfg (app w)" "limiter (app w)" x] by simp
      with n l c None Inl show ?thesis
        by (simp add: swapWAF_def)
    next
      case (Inr ls)
      with l have "waf_Addresses d h \<noteq> []"
        using newWAFEventListeners_error
          [of d "\<lparr>Handle = h, actions = acts\<rparr>" "cfg (app w)" "limiter (app w)"] by auto
      with n l c None Inr show ?thesis
        by (simp add: swapWAF_def Let_def split: option.splits)
    qed
  qed
qed

lemma swapWAF_compile_error:
  assumes "waf_NewHandle d rules (Obfuscator_KeyRegex (cfg (app w)))
             (Obfuscator_ValueRegex (cfg (app w))) = (h, Some e)"
  shows "swapWAF d rules w =
           (Some e, w\<lparr>logged := logged w @ snd (newWAFHandle d rules (cfg (app w)))\<rparr>)"
  using assms by (simp add: swapWAF_def newWAFHandle_def split: prod.splits)

lemma swapWAF_no_addresses:
  assumes "waf_NewHandle d rules (Obfuscator_KeyRegex (cfg (app w)))
             (Obfuscator_ValueRegex (cfg (app w))) = (h, None)"
    and "waf_Addresses d h = []"
  shows "swapWAF d rules w =
           (Some (Error ''no addresses found in the rule''),
            w\<lparr>logged := logged w @ snd (newWAFHandle d rules (cfg (app w))),
              closed := closed w @ [h]\<rparr>)"
  using assms
  by (simp add: swapWAF_def newWAFHandle_def newWAFEventListeners_empty Close_def
      split: prod.splits)

lemma swapWAF_success:
  assumes "waf_NewHandle d rules (Obfuscator_KeyRegex (cfg (app w)))
             (Obfuscator_ValueRegex (cfg (app w))) = (h, None)"
    and "newWAFEventListeners d (fst (fst (newWAFHandle d rules (cfg (app w)))))
           (cfg (app w)) (limiter (app w)) = (Inr ls, lg)"
  shows "swapWAF d rules w =
           (None,
            w\<lparr>logged := logged w @ snd (newWAFHandle d rules (cfg (app w))) @ lg,
              rootOperation := ls,
              app := (app w)\<lparr>wafHandle := Some (fst (fst (newWAFHandle d rules (cfg (app w)))))\<rparr>,
              closed := closed w @ (case wafHandle (app w) of None \<Rightarrow> []
                                    | Some old \<Rightarrow> [Handle old])\<rparr>)"
  using assms
  by (auto simp: swapWAF_def newWAFHandle_def Close_def SwapRootOperation_def foldl_On
      NewRootOperation_def Let_def split: prod.splits option.splits)

subsection \<open>Facts about the JSON text\<close>















subsection \<open>Listener construction and unsupported addresses\<close>

text \<open>
  C1, as amended. A handle without addresses makes \<^verbatim>\<open>newWAFEventListeners\<close> fail with
  the error \<^verbatim>\<open>no addresses found in the rule\<close>, and \<^verbatim>\<open>swapWAF\<close> then returns that
  error, leaves the \<^verbatim>\<open>appsec\<close> value (with its current handle) and the root operation
  as they were, and closes the new handle. A handle with addresses never makes listener
  construction fail; when no protocol supports any of them the result is the empty
  listener list, and the addresses are logged as not supported.
\<close>

theorem no_addresses_is_the_only_listener_error:
  "(waf_Addresses d (Handle waf) = [] \<longrightarrow>
      newWAFEventListeners d waf conf lim =
        (Inl (Error ''no addresses found in the rule''), []))
   \<and> (waf_NewHandle d rules (Obfuscator_KeyRegex (cfg (app w)))
         (Obfuscator_ValueRegex (cfg (app w))) = (h, None) \<and> waf_Addresses d h = [] \<longrightarrow>
      fst (swapWAF d rules w) = Some (Error ''no addresses found in the rule'')
      \<and> app (snd (swapWAF d rules w)) = app w
      \<and> rootOperation (snd (swapWAF d rules w)) = rootOperation w
      \<and> closed (snd (swapWAF d rules w)) = closed w @ [h])
   \<and> (waf_Addresses d (Handle waf) \<noteq> [] \<longrightarrow>
      (\<exists>ls. fst (newWAFEventListeners d waf conf lim) = Inr ls))
   \<and> (waf_Addresses d (Handle waf) \<noteq> []
       \<and> (\<forall>x \<in> set (waf_Addresses d (Handle waf)).
             \<not> graphqlsec_SupportsAddress d x \<and> \<not> grpcsec_SupportsAddress d x
             \<and> \<not> httpsec_SupportsAddress d x) \<longrightarrow>
      newWAFEventListeners d waf conf lim =
        (Inr [], [PartiallySupported (waf_Addresses d (Handle waf))]))"
proof -
  have "newWAFEventListeners d waf conf lim =
        (Inr [], [PartiallySupported (waf_Addresses d (Handle waf))])"
    if ne: "waf_Addresses d (Handle waf) \<noteq> []"
      and un: "\<forall>x \<in> set (waf_Addresses d (Handle waf)).
             \<not> graphqlsec_SupportsAddress d x \<and> \<not> grpcsec_SupportsAddress d x
             \<and> \<not> httpsec_SupportsAddress d x"
  proof -
    from un have
      "{x \<in> set (waf_Addresses d (Handle waf)). graphqlsec_SupportsAddress d x} = {}"
      "{x \<in> set (waf_Addresses d (Handle waf)). grpcsec_SupportsAddress d x} = {}"
      "{x \<in> set (waf_Addresses d (Handle waf)). httpsec_SupportsAddress d x} = {}"
      "filter (\<lambda>x. \<not> graphqlsec_SupportsAddress d x \<and> \<not> grpcsec_SupportsAddress d x
                   \<and> \<not> httpsec_SupportsAddress d x) (waf_Addresses d (Handle waf))
         = waf_Addresses d (Handle waf)"
      by (auto simp: filter_id_conv)
    with ne show ?thesis
      unfolding newWAFEventListeners_result [OF ne] Let_def by simp
  qed
  then show ?thesis
    using newWAFEventListeners_empty [of d waf conf lim]
      newWAFEventListeners_nonempty [of d waf conf lim]
    by (auto simp: swapWAF_no_addresses)
qed

theorem no_addresses_is_the_only_listener_error_witness:
  "newWAFEventListeners example_deps \<lparr>Handle = Some 2, actions = Map.empty\<rparr> example_cfg 7
     = (Inl (Error ''no addresses found in the rule''), [])
   \<and> fst (swapWAF example_deps \<lparr>Rules = ''no-addresses'', Actions = []\<rparr> example_world)
     = Some (Error ''no addresses found in the rule'')
   \<and> app (snd (swapWAF example_deps \<lparr>Rules = ''no-addresses'', Actions = []\<rparr> example_world))
     = app example_world
   \<and> rootOperation (snd (swapWAF example_deps \<lparr>Rules = ''no-addresses'', Actions = []\<rparr>
        example_world)) = rootOperation example_world
   \<and> closed (snd (swapWAF example_deps \<lparr>Rules = ''no-addresses'', Actions = []\<rparr>
        example_world)) = closed example_world @ [Some 2]
   \<and> newWAFEventListeners example_deps \<lparr>Handle = Some 3, actions = Map.empty\<rparr> example_cfg 7
     = (Inr [], [PartiallySupported [''custom.address'']])"
proof -
  let ?w2 = "\<lparr>Handle = Some 2, actions = Map.empty\<rparr>"
  let ?w3 = "\<lparr>Handle = Some 3, actions = Map.empty\<rparr>"
  let ?rules = "\<lparr>Rules = ''no-addresses'', Actions = []\<rparr>"
  have e: "waf_Addresses example_deps (Handle ?w2) = []"
    and e': "waf_Addresses example_deps (Some 2) = []"
    and c: "waf_NewHandle example_deps ?rules (Obfuscator_KeyRegex (cfg (app example_world)))
             (Obfuscator_ValueRegex (cfg (app example_world))) = (Some 2, None)"
    and a: "waf_Addresses example_deps (Handle ?w3) = [''custom.address'']"
    and u: "\<forall>x \<in> set [''custom.address''].
             \<not> graphqlsec_SupportsAddress example_deps x
             \<and> \<not> grpcsec_SupportsAddress example_deps x
             \<and> \<not> httpsec_SupportsAddress example_deps x"
    by (simp_all add: example_deps_def)
  from no_addresses_is_the_only_listener_error
         [of example_deps ?w2 example_cfg 7 ?rules example_world "Some 2"] e e' c
  have "newWAFEventListeners example_deps ?w2 example_cfg 7
      = (Inl (Error ''no addresses found in the rule''), [])
    \<and> fst (swapWAF example_deps ?rules example_world)
      = Some (Error ''no addresses found in the rule'')
    \<and> app (snd (swapWAF example_deps ?rules example_world)) = app example_world
    \<and> rootOperation (snd (swapWAF example_deps ?rules example_world))
      = rootOperation example_world
    \<and> closed (snd (swapWAF example_deps ?rules example_world))
      = closed example_world @ [Some 2]"
    by blast
  moreover
  from no_addresses_is_the_only_listener_error
         [of example_deps ?w3 example_cfg 7 ?rules example_world "Some 2"] u
  have "newWAFEventListeners example_deps ?w3 example_cfg 7
      = (Inr [], [PartiallySupported [''custom.address'']])"
    unfolding a by blast
  ultimately show ?thesis by blast
qed

text \<open>
  C1 as stated fails: the only address of the handle below is supported by no protocol,
  yet listener construction returns no error, and \<^verbatim>\<open>swapWAF\<close> succeeds, installs the
  new handle and an empty root in place of the previous ones and closes the previous
  handle.
\<close>

theorem unsupported_addresses_counterexample:
  "fst (newWAFEventListeners example_deps \<lparr>Handle = Some 3, actions = Map.empty\<rparr>
          example_cfg 7) = Inr []
   \<and> fst (swapWAF example_deps \<lparr>Rules = ''unsupported'', Actions = []\<rparr> example_world) = None
   \<and> map_option Handle (wafHandle (app example_world)) = Some (Some 0)
   \<and> map_option Handle (wafHandle (app (snd (swapWAF example_deps
        \<lparr>Rules = ''unsupported'', Actions = []\<rparr> example_world)))) = Some (Some 3)
   \<and> rootOperation (snd (swapWAF example_deps
        \<lparr>Rules = ''unsupported'', Actions = []\<rparr> example_world)) = []
   \<and> closed (snd (swapWAF example_deps
        \<lparr>Rules = ''unsupported'', Actions = []\<rparr> example_world)) = [Some 0]"
proof -
  let ?rules = "\<lparr>Rules = ''unsupported'', Actions = []\<rparr>"
  have c: "waf_NewHandle example_deps ?rules (Obfuscator_KeyRegex (cfg (app example_world)))
             (Obfuscator_ValueRegex (cfg (app example_world))) = (Some 3, None)"
    by (simp add: example_deps_def)
  have n: "fst (fst (newWAFHandle example_deps ?rules (cfg (app example_world)))) =
      \<lparr>Handle = Some 3, actions = [''block'' \<mapsto> NewBlockRequestAction 403 10 ''auto'']\<rparr>"
    by (simp add: newWAFHandle_def example_deps_def)
  have l: "newWAFEventListeners example_deps w3 conf lim =
      (Inr [], [PartiallySupported [''custom.address'']])" if "Handle w3 = Some 3" for w3 conf lim
    using that
    by (simp add: newWAFEventListeners_def example_deps_def Let_def)
  have l': "newWAFEventListeners example_deps
      (fst (fst (newWAFHandle example_deps ?rules (cfg (app example_world)))))
      (cfg (app example_world)) (limiter (app example_world)) =
      (Inr [], [PartiallySupported [''custom.address'']])"
    by (rule l) (simp add: n)
  show ?thesis
    unfolding swapWAF_success [OF c l'] n
    by (simp add: l example_world_def)
qed

subsection \<open>A failed swap changes nothing\<close>

text \<open>
  C3. When \<^verbatim>\<open>swapWAF\<close> returns an error, the \<^verbatim>\<open>appsec\<close> value (with its current
  handle) and the root operation are what they were. After an engine error that error
  is the one returned and no handle is closed; otherwise the error is the listener
  construction's, and the new handle is closed, and nothing else is.
\<close>

theorem swapWAF_error_all_or_nothing:
  assumes "fst (swapWAF d rules w) = Some err"
  shows "app (snd (swapWAF d rules w)) = app w
    \<and> rootOperation (snd (swapWAF d rules w)) = rootOperation w
    \<and> (case waf_NewHandle d rules (Obfuscator_KeyRegex (cfg (app w)))
               (Obfuscator_ValueRegex (cfg (app w))) of
          (h, Some e) \<Rightarrow> err = e \<and> closed (snd (swapWAF d rules w)) = closed w
        | (h, None) \<Rightarrow>
            fst (newWAFEventListeners d (fst (fst (newWAFHandle d rules (cfg (app w)))))
                   (cfg (app w)) (limiter (app w))) = Inl err
            \<and> closed (snd (swapWAF d rules w)) = closed w @ [h])"
proof -
  obtain h e where c: "waf_NewHandle d rules (Obfuscator_KeyRegex (cfg (app w)))
             (Obfuscator_ValueRegex (cfg (app w))) = (h, e)"
    by (metis surj_pair)
  show ?thesis
  proof (cases e)
    case (Some x)
    with c assms show ?thesis by (simp add: swapWAF_compile_error)
  next
    case None
    with c assms have em: "waf_Addresses d h = []"
      by (simp add: swapWAF_result split: if_splits)
    have "Handle (fst (fst (newWAFHandle d rules (cfg (app w))))) = h"
      using c by (simp add: newWAFHandle_Handle)
    with em have "newWAFEventListeners d (fst (fst (newWAFHandle d rules (cfg (app w)))))
                   (cfg (app w)) (limiter (app w)) = (Inl (Error ''no addresses found in the rule''), [])"
      by (simp add: newWAFEventListeners_empty)
    with c None em assms show ?thesis by (simp add: swapWAF_no_addresses)
  qed
qed

theorem swapWAF_error_all_or_nothing_witness:
  "fst (swapWAF example_deps \<lparr>Rules = ''no-addresses'', Actions = []\<rparr> example_world)
     = Some (Error ''no addresses found in the rule'')
   \<and> app (snd (swapWAF example_deps \<lparr>Rules = ''no-addresses'', Actions = []\<rparr> example_world))
     = app example_world
   \<and> rootOperation (snd (swapWAF example_deps \<lparr>Rules = ''no-addresses'', Actions = []\<rparr>
        example_world)) = rootOperation example_world
   \<and> closed (snd (swapWAF example_deps \<lparr>Rules = ''no-addresses'', Actions = []\<rparr> example_world))
     = [Some 2]
   \<and> fst (swapWAF example_deps \<lparr>Rules = ''invalid'', Actions = []\<rparr> example_world)
     = Some (Error ''could not instantiate the WAF'')
   \<and> app (snd (swapWAF example_deps \<lparr>Rules = ''invalid'', Actions = []\<rparr> example_world))
     = app example_world
   \<and> rootOperation (snd (swapWAF example_deps \<lparr>Rules = ''invalid'', Actions = []\<rparr>
        example_world)) = rootOperation example_world
   \<and> closed (snd (swapWAF example_deps \<lparr>Rules = ''invalid'', Actions = []\<rparr> example_world))
     = []"
proof -
  have r: "fst (swapWAF example_deps \<lparr>Rules = ''no-addresses'', Actions = []\<rparr> example_world)
     = Some (Error ''no addresses found in the rule'')"
    by (simp add: swapWAF_result example_deps_def)
  have r': "fst (swapWAF example_deps \<lparr>Rules = ''invalid'', Actions = []\<rparr> example_world)
     = Some (Error ''could not instantiate the WAF'')"
    by (simp add: swapWAF_result example_deps_def)
  from swapWAF_error_all_or_nothing [OF r] swapWAF_error_all_or_nothing [OF r'] r r'
  show ?thesis
    by (simp add: example_deps_def example_world_def)
qed

subsection \<open>The block entry of the registry\<close>

text \<open>
  C4, as amended. The registry of every handle has an entry \<^verbatim>\<open>block\<close>. It is the
  built-in block action (status 403, gRPC code 10, type \<^verbatim>\<open>auto\<close>) unless the action
  list has an entry with id \<^verbatim>\<open>block\<close> whose type is \<^verbatim>\<open>block_request\<close> or
  \<^verbatim>\<open>redirect_request\<close>; then it is the action of the last such entry.
\<close>

theorem block_entry_of_registry:
  "actions (fst (fst (newWAFHandle d rules conf))) ''block'' =
     (case filter (\<lambda>e. ID e = ''block'' \<and> knownType e) (Actions rules) of
        [] \<Rightarrow> Some (NewBlockRequestAction 403 10 ''auto'')
      | e # es \<Rightarrow> fst (actionFromEntry (last (e # es))))
   \<and> (\<exists>act. actions (fst (fst (newWAFHandle d rules conf))) ''block'' = Some act)"
proof -
  let ?es = "filter (\<lambda>e. ID e = ''block'' \<and> knownType e) (Actions rules)"
  have eq: "actions (fst (fst (newWAFHandle d rules conf))) ''block'' =
     (case ?es of
        [] \<Rightarrow> Some (NewBlockRequestAction 403 10 ''auto'')
      | e # es \<Rightarrow> fst (actionFromEntry (last (e # es))))"
    by (simp add: newWAFHandle_actions addActions_lookup split: list.splits)
  have "\<exists>act. fst (actionFromEntry (last ?es)) = Some act" if "?es \<noteq> []"
  proof -
    from that have "last ?es \<in> set ?es" by (rule last_in_set)
    then have "knownType (last ?es)" by simp
    then show ?thesis using actionFromEntry_None_iff[of "last ?es"] by auto
  qed
  with eq show ?thesis by (cases ?es) auto
qed

theorem block_entry_of_registry_witness:
  "actions (fst (fst (newWAFHandle example_deps
       \<lparr>Rules = ''rules'',
        Actions = [example_block_entry,
                   \<lparr>ID = ''block'', Type = ''block_request'', Parameters = example_params\<rparr>,
                   \<lparr>ID = ''block'', Type = ''redirect_request'', Parameters = example_params\<rparr>,
                   \<lparr>ID = ''block'', Type = ''monitor'', Parameters = example_params\<rparr>]\<rparr>
       example_cfg))) ''block''
     = Some (NewRedirectRequestAction 401 ''/blocked'')"
  using block_entry_of_registry [of example_deps
       "\<lparr>Rules = ''rules'',
        Actions = [example_block_entry,
                   \<lparr>ID = ''block'', Type = ''block_request'', Parameters = example_params\<rparr>,
                   \<lparr>ID = ''block'', Type = ''redirect_request'', Parameters = example_params\<rparr>,
                   \<lparr>ID = ''block'', Type = ''monitor'', Parameters = example_params\<rparr>]\<rparr>"
       example_cfg]
  by (simp add: example_block_entry_def example_params_def actionFromEntry_def)

text \<open>
  C4 as stated fails: the action list below has an entry with id \<^verbatim>\<open>block\<close>, that
  entry yields no action, and the registry keeps the built-in block action.
\<close>

theorem block_entry_unknown_type_counterexample:
  "actions (fst (fst (newWAFHandle example_deps
       \<lparr>Rules = ''rules'',
        Actions = [\<lparr>ID = ''block'', Type = ''monitor'', Parameters = example_params\<rparr>]\<rparr>
       example_cfg))) ''block''
     = Some (NewBlockRequestAction 403 10 ''auto'')
   \<and> fst (actionFromEntry \<lparr>ID = ''block'', Type = ''monitor'', Parameters = example_params\<rparr>)
     = None"
  by (simp add: newWAFHandle_actions actionFromEntry_def)

subsection \<open>One listener per supporting protocol\<close>

text \<open>
  C5. For a handle with addresses, \<^verbatim>\<open>newWAFEventListeners\<close> returns, in the order
  GraphQL, gRPC, HTTP, one listener for each protocol that supports at least one of the
  handle's addresses and none for the others. A protocol's listener is built from the
  handle, its actions, exactly the handle's addresses that the protocol supports, the
  configured timeout and the limiter (and, for HTTP, the API security configuration).
\<close>

theorem one_listener_per_supporting_protocol:
  assumes "waf_Addresses d (Handle waf) \<noteq> []"
  shows "fst (newWAFEventListeners d waf conf lim) =
     (let G = {x \<in> set (waf_Addresses d (Handle waf)). graphqlsec_SupportsAddress d x};
          R = {x \<in> set (waf_Addresses d (Handle waf)). grpcsec_SupportsAddress d x};
          H = {x \<in> set (waf_Addresses d (Handle waf)). httpsec_SupportsAddress d x}
      in Inr ((if G \<noteq> {}
               then [graphqlsec_NewWAFEventListener (Handle waf) (actions waf) G
                       (WAFTimeout conf) lim] else [])
            @ (if R \<noteq> {}
               then [grpcsec_NewWAFEventListener (Handle waf) (actions waf) R
                       (WAFTimeout conf) lim] else [])
            @ (if H \<noteq> {}
               then [httpsec_NewWAFEventListener (Handle waf) (actions waf) H
                       (WAFTimeout conf) (APISec conf) lim] else [])))"
  unfolding newWAFEventListeners_result [OF assms] Let_def
  by (rule fst_conv)

theorem one_listener_per_supporting_protocol_witness:
  "fst (newWAFEventListeners example_deps \<lparr>Handle = Some 1, actions = Map.empty\<rparr>
          example_cfg 7) =
     Inr [grpcsec_NewWAFEventListener (Some 1) Map.empty {''http.client_ip''} 4000000 7,
          httpsec_NewWAFEventListener (Some 1) Map.empty
            {''http.client_ip'', ''server.request.method''} 4000000 0 7]"
proof -
  have ne: "waf_Addresses example_deps (Handle \<lparr>Handle = Some 1, actions = Map.empty\<rparr>) \<noteq> []"
    by (simp add: example_deps_def)
  let ?addrs = "waf_Addresses example_deps (Handle \<lparr>Handle = Some 1, actions = Map.empty\<rparr>)"
  have G: "{x \<in> set ?addrs. graphqlsec_SupportsAddress example_deps x} = {}"
    by (auto simp: example_deps_def)
  have R: "{x \<in> set ?addrs. grpcsec_SupportsAddress example_deps x} = {''http.client_ip''}"
    by (auto simp: example_deps_def)
  have H: "{x \<in> set ?addrs. httpsec_SupportsAddress example_deps x} =
      {''http.client_ip'', ''server.request.method''}"
    by (auto simp: example_deps_def)
  from one_listener_per_supporting_protocol [OF ne, of example_cfg 7]
  show ?thesis
    unfolding Let_def G R H by (simp add: example_cfg_def)
qed

subsection \<open>Unknown action types\<close>



subsection \<open>Rules monitoring tags\<close>



subsection \<open>Default gRPC code and built-in block action\<close>

text \<open>
  C9. A \<^verbatim>\<open>block_request\<close> entry without \<^verbatim>\<open>grpc_status_code\<close> yields a block action
  with gRPC code 10 (Aborted), keeping the entry's status code and type. The built-in
  \<^verbatim>\<open>block\<close> action, which the registry holds whenever no entry of a recognised type
  has the id \<^verbatim>\<open>block\<close>, has HTTP status 403, gRPC code 10 and type \<^verbatim>\<open>auto\<close>.
\<close>

theorem block_request_default_grpc_code:
  "(Type e = ''block_request'' \<and> GRPCStatusCode (Parameters e) = None \<longrightarrow>
      fst (actionFromEntry e) =
        Some (NewBlockRequestAction (StatusCode (Parameters e)) 10 (Type' (Parameters e))))
   \<and> ((\<forall>e' \<in> set (Actions rules). ID e' = ''block'' \<longrightarrow> \<not> knownType e') \<longrightarrow>
      actions (fst (fst (newWAFHandle d rules conf))) ''block'' =
        Some (NewBlockRequestAction 403 10 ''auto''))"
proof -
  have "filter (\<lambda>e. ID e = ''block'' \<and> knownType e) (Actions rules) = []"
    if "\<forall>e' \<in> set (Actions rules). ID e' = ''block'' \<longrightarrow> \<not> knownType e'"
    using that by (auto simp: filter_empty_conv)
  then show ?thesis
    by (auto simp: actionFromEntry_def newWAFHandle_actions addActions_lookup)
qed

theorem block_request_default_grpc_code_witness:
  "fst (actionFromEntry \<lparr>ID = ''block-401'', Type = ''block_request'', Parameters = example_params\<rparr>)
     = Some (NewBlockRequestAction 401 10 ''json'')
   \<and> actions (fst (fst (newWAFHandle example_deps \<lparr>Rules = ''rules'', Actions = []\<rparr> example_cfg)))
        ''block'' = Some (NewBlockRequestAction 403 10 ''auto'')"
  using block_request_default_grpc_code
    [of "\<lparr>ID = ''block-401'', Type = ''block_request'', Parameters = example_params\<rparr>"
        "\<lparr>Rules = ''rules'', Actions = []\<rparr>" example_deps example_cfg]
  by (simp add: example_params_def)

subsection \<open>Addresses shared between protocols\<close>

text \<open>
  C10. Every address of the handle is in the address set of the listener of each
  protocol that supports it, so an address that several protocols support is bound to
  all of their listeners; and it is in the logged list of unsupported addresses exactly
  when no protocol supports it.
\<close>

theorem address_bound_to_every_supporting_protocol:
  assumes "x \<in> set (waf_Addresses d (Handle waf))"
  shows "\<exists>ls. fst (newWAFEventListeners d waf conf lim) = Inr ls
    \<and> (graphqlsec_SupportsAddress d x \<longrightarrow>
         (\<exists>A. graphqlsec_NewWAFEventListener (Handle waf) (actions waf) A (WAFTimeout conf) lim
                \<in> set ls \<and> x \<in> A))
    \<and> (grpcsec_SupportsAddress d x \<longrightarrow>
         (\<exists>A. grpcsec_NewWAFEventListener (Handle waf) (actions waf) A (WAFTimeout conf) lim
                \<in> set ls \<and> x \<in> A))
    \<and> (httpsec_SupportsAddress d x \<longrightarrow>
         (\<exists>A. httpsec_NewWAFEventListener (Handle waf) (actions waf) A (WAFTimeout conf)
                  (APISec conf) lim \<in> set ls \<and> x \<in> A))
    \<and> (\<forall>ns. PartiallySupported ns \<in> set (snd (newWAFEventListeners d waf conf lim)) \<longrightarrow>
          (x \<in> set ns \<longleftrightarrow>
             \<not> graphqlsec_SupportsAddress d x \<and> \<not> grpcsec_SupportsAddress d x
             \<and> \<not> httpsec_SupportsAddress d x))
    \<and> (\<not> graphqlsec_SupportsAddress d x \<and> \<not> grpcsec_SupportsAddress d x
        \<and> \<not> httpsec_SupportsAddress d x \<longrightarrow>
          (\<exists>ns. PartiallySupported ns \<in> set (snd (newWAFEventListeners d waf conf lim))
                \<and> x \<in> set ns))"
proof -
  from assms have ne: "waf_Addresses d (Handle waf) \<noteq> []" by auto
  show ?thesis
    unfolding newWAFEventListeners_result [OF ne] Let_def
    using assms by (auto simp: filter_empty_conv)
qed

theorem address_bound_to_every_supporting_protocol_witness:
  "(\<exists>ls. fst (newWAFEventListeners example_deps \<lparr>Handle = Some 1, actions = Map.empty\<rparr>
               example_cfg 7) = Inr ls
      \<and> (\<exists>A. grpcsec_NewWAFEventListener (Some 1) Map.empty A 4000000 7 \<in> set ls
              \<and> ''http.client_ip'' \<in> A)
      \<and> (\<exists>A. httpsec_NewWAFEventListener (Some 1) Map.empty A 4000000 0 7 \<in> set ls
              \<and> ''http.client_ip'' \<in> A))
   \<and> (\<exists>ns. PartiallySupported ns \<in> set (snd (newWAFEventListeners example_deps
               \<lparr>Handle = Some 1, actions = Map.empty\<rparr> example_cfg 7))
         \<and> ''custom.address'' \<in> set ns \<and> ''http.client_ip'' \<notin> set ns)"
proof -
  let ?waf = "\<lparr>Handle = Some 1, actions = Map.empty\<rparr>"
  have m: "''http.client_ip'' \<in> set (waf_Addresses example_deps (Handle ?waf))"
    and m': "''custom.address'' \<in> set (waf_Addresses example_deps (Handle ?waf))"
    by (simp_all add: example_deps_def)
  have s: "grpcsec_SupportsAddress example_deps ''http.client_ip''"
    "httpsec_SupportsAddress example_deps ''http.client_ip''"
    "\<not> graphqlsec_SupportsAddress example_deps ''custom.address''"
    "\<not> grpcsec_SupportsAddress example_deps ''custom.address''"
    "\<not> httpsec_SupportsAddress example_deps ''custom.address''"
    by (simp_all add: example_deps_def)
  have v: "Handle ?waf = Some 1" "actions ?waf = Map.empty" "WAFTimeout example_cfg = 4000000"
    "APISec example_cfg = 0"
    by (simp_all add: example_cfg_def)
  from address_bound_to_every_supporting_protocol [OF m, of example_cfg 7]
    address_bound_to_every_supporting_protocol [OF m', of example_cfg 7] s
  show ?thesis unfolding v by blast
qed

end
